theory Spec2Isabelle
  imports Main "HOL-Library.Word"
begin

section \<open>The decoder factory \<open>build_decoder\<close> of \<open>decoders/factory.py\<close>\<close>

subsection \<open>Python values, objects and the store\<close>

text \<open>
  The arguments of \<open>build_decoder\<close> are Python objects passed by reference: a dict
  (\<open>input_specs\<close>), a \<open>hyperparams.Config\<close> instance (\<open>model_config\<close>) and a
  regularizer instance or \<open>None\<close>. A value is either immediate (immutable) or a
  reference into a store of mutable objects. A float is kept as its IEEE 754 binary64
  bit pattern: the factory only forwards floats, it never computes with them.
\<close>

type_synonym addr = nat

datatype pyval =
    PNone
  | PBool bool
  | PInt int
  | PFloat "64 word"
  | PStr string
  | PRef addr

datatype pyobj =
    Instance "(string \<times> pyval) list"  \<comment> \<open>an instance, by its attributes\<close>
  | Dict "(string \<times> pyval) list"      \<comment> \<open>a dict with \<open>str\<close> keys, in insertion order\<close>
  | PyList "pyval list"

text \<open>The store is the list of the allocated objects; an address is an index into it.\<close>

type_synonym store = "pyobj list"

text \<open>Keyword arguments of a call, in the order they are written.\<close>

type_synonym kwargs = "(string \<times> pyval) list"

text \<open>An exception raised inside a callee that is not part of this file, by its text.\<close>

type_synonym exn = string

text \<open>
  The exceptions that leave \<open>build_decoder\<close>, by the place that raises them:
  \<^item> \<open>AttributeError v n\<close>: an attribute read \<open>v.n\<close> of the function body failed;
  \<^item> \<open>DecoderNotImplement v\<close>: the \<open>ValueError('Decoder {!r} not implement'.format(v))\<close>
    of the final \<open>else\<close> branch (the message is kept as its argument);
  \<^item> \<open>Propagated x\<close>: an exception raised inside \<open>get()\<close> or inside a constructor.
\<close>

datatype error =
    AttributeError pyval string
  | DecoderNotImplement pyval
  | Propagated exn

text \<open>A computation of the function body: it reads and extends the store and returns or raises.\<close>

type_synonym 'a py = "store \<Rightarrow> (error + 'a) \<times> store"

text \<open>A callee that is not part of this file: a method or a constructor.\<close>

type_synonym extern = "store \<Rightarrow> (exn + pyval) \<times> store"

definition py_return :: "'a \<Rightarrow> 'a py" where
  "py_return v = (\<lambda>s. (Inr v, s))"

definition py_raise :: "error \<Rightarrow> 'a py" where
  "py_raise e = (\<lambda>s. (Inl e, s))"

definition py_bind :: "'a py \<Rightarrow> ('a \<Rightarrow> 'b py) \<Rightarrow> 'b py" where
  "py_bind m f = (\<lambda>s. case m s of (Inl e, s') \<Rightarrow> (Inl e, s') | (Inr v, s') \<Rightarrow> f v s')"

text \<open>
  An attribute read \<open>v.n\<close>. Only an instance that has the attribute answers; every other
  value raises \<open>AttributeError\<close> (none of the names read by the factory is an attribute
  of \<open>None\<close>, a number, a string, a dict or a list; \<open>get\<close> on a dict is only reached
  after \<open>type\<close> was read from the same object). Attributes are plain fields, as those
  of a \<open>hyperparams.Config\<close> dataclass: reading one has no effect.
\<close>

fun getattr :: "store \<Rightarrow> pyval \<Rightarrow> string \<Rightarrow> error + pyval" where
  "getattr s (PRef a) n =
     (if a < length s then
        (case s ! a of
           Instance fs \<Rightarrow>
             (case map_of fs n of
                Some v \<Rightarrow> Inr v
              | None \<Rightarrow> Inl (AttributeError (PRef a) n))
         | _ \<Rightarrow> Inl (AttributeError (PRef a) n))
      else Inl (AttributeError (PRef a) n))"
| "getattr s v n = Inl (AttributeError v n)"

definition attr :: "pyval \<Rightarrow> string \<Rightarrow> pyval py" where
  "attr v n = (\<lambda>s. (getattr s v n, s))"

text \<open>Allocation of a new object: it gets the next free address.\<close>

definition alloc :: "pyobj \<Rightarrow> pyval py" where
  "alloc ob = (\<lambda>s. (Inr (PRef (length s)), s @ [ob]))"

text \<open>A call of a callee that is not part of this file; its exception propagates.\<close>

definition external :: "extern \<Rightarrow> pyval py" where
  "external f = (\<lambda>s. case f s of (Inl x, s') \<Rightarrow> (Inl (Propagated x), s') | (Inr v, s') \<Rightarrow> (Inr v, s'))"

text \<open>The named items of a call or of a dict display are evaluated from left to right.\<close>

fun eval_items :: "(string \<times> pyval py) list \<Rightarrow> kwargs py" where
  "eval_items [] = py_return []"
| "eval_items ((k, m) # rest) =
     py_bind m (\<lambda>v. py_bind (eval_items rest) (\<lambda>vs. py_return ((k, v) # vs)))"

text \<open>\<open>d[k] = v\<close> on a dict: an existing key keeps its place, a new key goes last.\<close>

fun dict_setitem :: "(string \<times> pyval) list \<Rightarrow> string \<Rightarrow> pyval \<Rightarrow> (string \<times> pyval) list" where
  "dict_setitem [] k v = [(k, v)]"
| "dict_setitem ((k', v') # d) k v =
     (if k' = k then (k, v) # d else (k', v') # dict_setitem d k v)"

text \<open>A dict display \<open>{k1: e1, k2: e2}\<close>: the items are evaluated, then stored in order
  into a new dict.\<close>

definition dict_display :: "(string \<times> pyval py) list \<Rightarrow> pyval py" where
  "dict_display items =
     py_bind (eval_items items)
       (\<lambda>kvs. alloc (Dict (foldl (\<lambda>d (k, v). dict_setitem d k v) [] kvs)))"

text \<open>A call \<open>f(k1=e1, k2=e2, ...)\<close> with keyword arguments.\<close>

definition call :: "(kwargs \<Rightarrow> extern) \<Rightarrow> (string \<times> pyval py) list \<Rightarrow> pyval py" where
  "call f args = py_bind (eval_items args) (\<lambda>kw. external (f kw))"

subsection \<open>The collaborators\<close>

text \<open>
  The module \<open>decoders\<close> is imported by the factory and is not part of this file: its four
  constructors and the two key constants of \<open>decoders.mrfm\<close> are parameters of the model.
  So is the method \<open>get\<close> of the \<open>decoder\<close> one-of configuration (from \<open>hyperparams\<close>),
  a parameter \<open>get\<close> that takes the object it is called on; an object without that
  method is a \<open>get\<close> that raises.
\<close>

record decoders_module =
  FPN :: "kwargs \<Rightarrow> extern"
  NASFPN :: "kwargs \<Rightarrow> extern"
  ASPP :: "kwargs \<Rightarrow> extern"
  MRFM :: "kwargs \<Rightarrow> extern"
  FROM_LAYER :: string
  LAYER_DEPTH :: string

subsection \<open>The factory\<close>

text \<open>
  \<open>build_decoder get decoders input_specs model_config l2_regularizer\<close>, statement by
  statement: the three reads of lines 45 to 47 (\<open>model_config.decoder\<close> is read once
  for \<open>.type\<close> and once more for \<open>.get()\<close>), then the \<open>if\<close>/\<open>elif\<close> chain. The
  arguments of each constructor call are evaluated in the order they are written, so
  the first attribute that is missing raises. A comparison \<open>decoder_type == 'fpn'\<close> is
  equality of values: only that very string is equal to it.
\<close>

definition build_decoder ::
  "(pyval \<Rightarrow> extern) \<Rightarrow> decoders_module \<Rightarrow> pyval \<Rightarrow> pyval \<Rightarrow> pyval \<Rightarrow> pyval py" where
  "build_decoder get decoders input_specs model_config l2_regularizer =
     py_bind (attr model_config ''decoder'') (\<lambda>decoder.
     py_bind (attr decoder ''type'') (\<lambda>decoder_type.
     py_bind (attr model_config ''decoder'') (\<lambda>decoder'.
     py_bind (external (get decoder')) (\<lambda>decoder_cfg.
     py_bind (attr model_config ''norm_activation'') (\<lambda>norm_activation_config.
       if decoder_type = PStr ''identity'' then
         py_return PNone
       else if decoder_type = PStr ''fpn'' then
         call (FPN decoders)
           [(''input_specs'', py_return input_specs),
            (''min_level'', attr model_config ''min_level''),
            (''max_level'', attr model_config ''max_level''),
            (''num_filters'', attr decoder_cfg ''num_filters''),
            (''use_separable_conv'', attr decoder_cfg ''use_separable_conv''),
            (''activation'', attr norm_activation_config ''activation''),
            (''use_sync_bn'', attr norm_activation_config ''use_sync_bn''),
            (''norm_momentum'', attr norm_activation_config ''norm_momentum''),
            (''norm_epsilon'', attr norm_activation_config ''norm_epsilon''),
            (''kernel_regularizer'', py_return l2_regularizer)]
       else if decoder_type = PStr ''nasfpn'' then
         call (NASFPN decoders)
           [(''input_specs'', py_return input_specs),
            (''min_level'', attr model_config ''min_level''),
            (''max_level'', attr model_config ''max_level''),
            (''num_filters'', attr decoder_cfg ''num_filters''),
            (''num_repeats'', attr decoder_cfg ''num_repeats''),
            (''use_separable_conv'', attr decoder_cfg ''use_separable_conv''),
            (''activation'', attr norm_activation_config ''activation''),
            (''use_sync_bn'', attr norm_activation_config ''use_sync_bn''),
            (''norm_momentum'', attr norm_activation_config ''norm_momentum''),
            (''norm_epsilon'', attr norm_activation_config ''norm_epsilon''),
            (''kernel_regularizer'', py_return l2_regularizer)]
       else if decoder_type = PStr ''aspp'' then
         call (ASPP decoders)
           [(''level'', attr decoder_cfg ''level''),
            (''dilation_rates'', attr decoder_cfg ''dilation_rates''),
            (''num_filters'', attr decoder_cfg ''num_filters''),
            (''pool_kernel_size'', attr decoder_cfg ''pool_kernel_size''),
            (''dropout_rate'', attr decoder_cfg ''dropout_rate''),
            (''use_sync_bn'', attr norm_activation_config ''use_sync_bn''),
            (''norm_momentum'', attr norm_activation_config ''norm_momentum''),
            (''norm_epsilon'', attr norm_activation_config ''norm_epsilon''),
            (''activation'', attr norm_activation_config ''activation''),
            (''kernel_regularizer'', py_return l2_regularizer)]
       else if decoder_type = PStr ''mrfm'' then
         call (MRFM decoders)
           [(''input_specs'', py_return input_specs),
            (''feature_map_layout'',
               dict_display
                 [(FROM_LAYER decoders, attr decoder_cfg ''fml_from_layer''),
                  (LAYER_DEPTH decoders, attr decoder_cfg ''fml_layer_depth'')]),
            (''depth_multiplier'', attr decoder_cfg ''depth_multiplier''),
            (''min_depth'', attr decoder_cfg ''min_depth''),
            (''insert_1x1_conv'', attr decoder_cfg ''insert_1x1_conv''),
            (''kernel_size'', attr decoder_cfg ''kernel_size''),
            (''use_explicit_padding'', attr decoder_cfg ''use_explicit_padding''),
            (''use_depthwise'', attr decoder_cfg ''use_depthwise''),
            (''activation'', attr norm_activation_config ''activation''),
            (''use_sync_bn'', attr norm_activation_config ''use_sync_bn''),
            (''norm_momentum'', attr norm_activation_config ''norm_momentum''),
            (''norm_epsilon'', attr norm_activation_config ''norm_epsilon''),
            (''kernel_regularizer'', py_return l2_regularizer)]
       else
         py_raise (DecoderNotImplement decoder_type))))))"

subsection \<open>What an argument refers to\<close>

text \<open>The object behind an argument: an immediate value has none (it cannot be mutated).\<close>

fun deref :: "store \<Rightarrow> pyval \<Rightarrow> pyobj option" where
  "deref s (PRef a) = (if a < length s then Some (s ! a) else None)"
| "deref s v = None"

text \<open>
  A step (of the function body or of a callee) keeps the argument \<open>v\<close>: the object that
  \<open>v\<close> refers to before the step is the object it refers to after it, whether the step
  returns or raises.
\<close>

definition keeps :: "pyval \<Rightarrow> (store \<Rightarrow> 'r \<times> store) \<Rightarrow> bool" where
  "keeps v m = (\<forall>s ob. deref s v = Some ob \<longrightarrow> deref (snd (m s)) v = Some ob)"

text \<open>The five discriminator values that the factory knows.\<close>

definition known_types :: "pyval list" where
  "known_types = [PStr ''identity'', PStr ''fpn'', PStr ''nasfpn'', PStr ''aspp'', PStr ''mrfm'']"

subsection \<open>Sample collaborators and configurations\<close>

text \<open>
  Stand-ins for the collaborators, used to run the factory on sample inputs.
  \<open>stub_get\<close> returns the attribute of the one-of object that its \<open>type\<close> names
  (\<open>None\<close> when the type is not a string) and raises when there is no such attribute.
  \<open>stub_ctor c\<close> allocates an instance that records the class name and the keyword
  arguments it was given. \<open>failing_ctor\<close> raises whenever it is invoked.
\<close>

definition stub_get :: "pyval \<Rightarrow> extern" where
  "stub_get self s =
     (case getattr s self ''type'' of
        Inr (PStr t) \<Rightarrow>
          (case getattr s self t of
             Inr v \<Rightarrow> (Inr v, s)
           | Inl _ \<Rightarrow> (Inl ''type is not a valid key'', s))
      | _ \<Rightarrow> (Inr PNone, s))"

definition stub_ctor :: "string \<Rightarrow> kwargs \<Rightarrow> extern" where
  "stub_ctor c kw s = (Inr (PRef (length s)), s @ [Instance ((''__class__'', PStr c) # kw)])"

definition failing_ctor :: "kwargs \<Rightarrow> extern" where
  "failing_ctor kw s = (Inl ''constructor invoked'', s)"

definition stub_decoders :: decoders_module where
  "stub_decoders =
     \<lparr>FPN = stub_ctor ''FPN'', NASFPN = stub_ctor ''NASFPN'', ASPP = stub_ctor ''ASPP'',
      MRFM = stub_ctor ''MRFM'', FROM_LAYER = ''from_layer'', LAYER_DEPTH = ''layer_depth''\<rparr>"

definition failing_decoders :: decoders_module where
  "failing_decoders =
     \<lparr>FPN = failing_ctor, NASFPN = failing_ctor, ASPP = failing_ctor,
      MRFM = failing_ctor, FROM_LAYER = ''from_layer'', LAYER_DEPTH = ''layer_depth''\<rparr>"

text \<open>
  A sample store, for a decoder of type \<open>t\<close>. Address 0 is \<open>input_specs\<close> (levels 3 and 4,
  their shapes at 1 and 2), address 3 is \<open>model_config\<close>, address 4 its \<open>decoder\<close>,
  address 5 its \<open>norm_activation\<close>, addresses 6 to 10 the per-type sub-records, and
  address 14 an L2 regularizer. The floats are 0.99, 0.001, 0.0, 1.0 and 0.0001.
\<close>

definition sample_store :: "pyval \<Rightarrow> store" where
  "sample_store t =
     [Dict [(''3'', PRef 1), (''4'', PRef 2)],
      PyList [PNone, PInt 64, PInt 64, PInt 256],
      PyList [PNone, PInt 32, PInt 32, PInt 512],
      Instance [(''decoder'', PRef 4), (''norm_activation'', PRef 5),
                (''min_level'', PInt 3), (''max_level'', PInt 7)],
      Instance [(''type'', t), (''fpn'', PRef 6), (''nasfpn'', PRef 7), (''identity'', PRef 8),
                (''aspp'', PRef 9), (''mrfm'', PRef 10)],
      Instance [(''activation'', PStr ''relu''), (''use_sync_bn'', PBool False),
                (''norm_momentum'', PFloat 0x3FEFAE147AE147AE),
                (''norm_epsilon'', PFloat 0x3F50624DD2F1A9FC)],
      Instance [(''num_filters'', PInt 256), (''use_separable_conv'', PBool False)],
      Instance [(''num_filters'', PInt 256), (''num_repeats'', PInt 5),
                (''use_separable_conv'', PBool False)],
      Instance [],
      Instance [(''level'', PInt 4), (''dilation_rates'', PRef 11), (''dropout_rate'', PFloat 0),
                (''num_filters'', PInt 256), (''pool_kernel_size'', PNone)],
      Instance [(''fml_from_layer'', PRef 12), (''fml_layer_depth'', PRef 13),
                (''depth_multiplier'', PFloat 0x3FF0000000000000), (''min_depth'', PInt 16),
                (''insert_1x1_conv'', PBool True), (''kernel_size'', PInt 3),
                (''use_explicit_padding'', PBool False), (''use_depthwise'', PBool False)],
      PyList [PInt 6, PInt 12, PInt 18],
      PyList [PStr ''3'', PStr ''4'', PStr [], PStr []],
      PyList [PInt (- 1), PInt (- 1), PInt 512, PInt 256],
      Instance [(''l2'', PFloat 0x3F1A36E2EB1C432D)]]"

text \<open>
  Two smaller stores. In both, \<open>model_config\<close> is at address 0 and its \<open>decoder\<close>, at
  address 1, is a one-of object with the single variant \<open>t\<close> (its sub-record at address 2),
  selected. In \<open>single_variant_store\<close> the configuration has a \<open>norm_activation\<close> (at
  address 3); in \<open>bare_store\<close> it has none.
\<close>

definition single_variant_store :: "string \<Rightarrow> store" where
  "single_variant_store t =
     [Instance [(''decoder'', PRef 1), (''norm_activation'', PRef 3)],
      Instance [(''type'', PStr t), (t, PRef 2)],
      Instance [],
      Instance [(''activation'', PStr ''relu''), (''use_sync_bn'', PBool False),
                (''norm_momentum'', PFloat 0x3FEFAE147AE147AE),
                (''norm_epsilon'', PFloat 0x3F50624DD2F1A9FC)]]"

definition bare_store :: "string \<Rightarrow> store" where
  "bare_store t =
     [Instance [(''decoder'', PRef 1)],
      Instance [(''type'', PStr t), (t, PRef 2)],
      Instance []]"

text \<open>A computation that never raises the error of the final \<open>else\<close> branch.\<close>

definition never_not_implement :: "'a py \<Rightarrow> bool" where
  "never_not_implement m = (\<forall>s v. fst (m s) \<noteq> Inl (DecoderNotImplement v))"

section \<open>Properties\<close>

subsection \<open>Running a computation\<close>

lemma external_Inr: "f s = (Inr v, s') \<Longrightarrow> external f s = (Inr v, s')"
  by (simp add: external_def)

subsection \<open>Reads in a store that gained a dict\<close>

lemma getattr_append_Dict: "getattr (s @ [Dict d]) v n = getattr s v n"
proof (cases v)
  case (PRef a)
  consider "a < length s" | "a = length s" | "length s < a" by linarith
  then show ?thesis
    by cases (simp_all add: PRef nth_append)
qed simp_all

subsection \<open>The \<open>fpn\<close> branch\<close>

text \<open>
  Claim C3. When \<open>model_config.decoder.type\<close> is \<open>'fpn'\<close>, the call is the call of the
  \<open>FPN\<close> constructor (its result returned, its exception propagated) with
  \<open>input_specs\<close>, \<open>model_config.min_level\<close>, \<open>model_config.max_level\<close>, the
  sub-record's \<open>num_filters\<close> and \<open>use_separable_conv\<close>, the four \<open>norm_activation\<close>
  fields and \<open>l2_regularizer\<close> as \<open>kernel_regularizer\<close>, each forwarded as it was read.
  The sub-record is what \<open>get()\<close> returned; the fields are read in the store that
  \<open>get()\<close> left.
\<close>

theorem build_decoder_fpn:
  assumes "getattr s model_config ''decoder'' = Inr decoder"
    and "getattr s decoder ''type'' = Inr (PStr ''fpn'')"
    and "get decoder s = (Inr decoder_cfg, s1)"
    and "getattr s1 model_config ''norm_activation'' = Inr norm_activation_config"
    and "getattr s1 model_config ''min_level'' = Inr min_level"
    and "getattr s1 model_config ''max_level'' = Inr max_level"
    and "getattr s1 decoder_cfg ''num_filters'' = Inr num_filters"
    and "getattr s1 decoder_cfg ''use_separable_conv'' = Inr use_separable_conv"
    and "getattr s1 norm_activation_config ''activation'' = Inr activation"
    and "getattr s1 norm_activation_config ''use_sync_bn'' = Inr use_sync_bn"
    and "getattr s1 norm_activation_config ''norm_momentum'' = Inr norm_momentum"
    and "getattr s1 norm_activation_config ''norm_epsilon'' = Inr norm_epsilon"
  shows "build_decoder get decoders input_specs model_config l2_regularizer s =
     external (FPN decoders
       [(''input_specs'', input_specs),
        (''min_level'', min_level),
        (''max_level'', max_level),
        (''num_filters'', num_filters),
        (''use_separable_conv'', use_separable_conv),
        (''activation'', activation),
        (''use_sync_bn'', use_sync_bn),
        (''norm_momentum'', norm_momentum),
        (''norm_epsilon'', norm_epsilon),
        (''kernel_regularizer'', l2_regularizer)]) s1"
  using assms by (simp add: build_decoder_def call_def py_bind_def attr_def py_return_def external_Inr)

theorem build_decoder_fpn_witness:
  "build_decoder stub_get stub_decoders (PRef 0) (PRef 3) (PRef 14) (sample_store (PStr ''fpn'')) =
     (Inr (PRef 15),
      sample_store (PStr ''fpn'') @
        [Instance
          [(''__class__'', PStr ''FPN''),
           (''input_specs'', PRef 0),
           (''min_level'', PInt 3),
           (''max_level'', PInt 7),
           (''num_filters'', PInt 256),
           (''use_separable_conv'', PBool False),
           (''activation'', PStr ''relu''),
           (''use_sync_bn'', PBool False),
           (''norm_momentum'', PFloat 0x3FEFAE147AE147AE),
           (''norm_epsilon'', PFloat 0x3F50624DD2F1A9FC),
           (''kernel_regularizer'', PRef 14)]])"
proof -
  let ?s = "sample_store (PStr ''fpn'')"
  have run: "build_decoder stub_get stub_decoders (PRef 0) (PRef 3) (PRef 14) ?s =
     external (FPN stub_decoders
       [(''input_specs'', PRef 0),
        (''min_level'', PInt 3),
        (''max_level'', PInt 7),
        (''num_filters'', PInt 256),
        (''use_separable_conv'', PBool False),
        (''activation'', PStr ''relu''),
        (''use_sync_bn'', PBool False),
        (''norm_momentum'', PFloat 0x3FEFAE147AE147AE),
        (''norm_epsilon'', PFloat 0x3F50624DD2F1A9FC),
        (''kernel_regularizer'', PRef 14)]) ?s"
    by (rule build_decoder_fpn [where decoder = "PRef 4" and decoder_cfg = "PRef 6"
          and norm_activation_config = "PRef 5"])
      (simp_all add: sample_store_def stub_get_def)
  have len: "length ?s = 15" by (simp add: sample_store_def)
  show ?thesis
    unfolding run by (simp add: external_def stub_decoders_def stub_ctor_def len)
qed

subsection \<open>The \<open>nasfpn\<close> branch\<close>

text \<open>
  Claim C4. When \<open>model_config.decoder.type\<close> is \<open>'nasfpn'\<close>, the call is the call of
  the \<open>NASFPN\<close> constructor with \<open>input_specs\<close>, \<open>model_config.min_level\<close>,
  \<open>model_config.max_level\<close>, the sub-record's \<open>num_filters\<close>, \<open>num_repeats\<close> and
  \<open>use_separable_conv\<close>, the four \<open>norm_activation\<close> fields and \<open>l2_regularizer\<close> as
  \<open>kernel_regularizer\<close>, each forwarded as it was read.
\<close>

theorem build_decoder_nasfpn:
  assumes "getattr s model_config ''decoder'' = Inr decoder"
    and "getattr s decoder ''type'' = Inr (PStr ''nasfpn'')"
    and "get decoder s = (Inr decoder_cfg, s1)"
    and "getattr s1 model_config ''norm_activation'' = Inr norm_activation_config"
    and "getattr s1 model_config ''min_level'' = Inr min_level"
    and "getattr s1 model_config ''max_level'' = Inr max_level"
    and "getattr s1 decoder_cfg ''num_filters'' = Inr num_filters"
    and "getattr s1 decoder_cfg ''num_repeats'' = Inr num_repeats"
    and "getattr s1 decoder_cfg ''use_separable_conv'' = Inr use_separable_conv"
    and "getattr s1 norm_activation_config ''activation'' = Inr activation"
    and "getattr s1 norm_activation_config ''use_sync_bn'' = Inr use_sync_bn"
    and "getattr s1 norm_activation_config ''norm_momentum'' = Inr norm_momentum"
    and "getattr s1 norm_activation_config ''norm_epsilon'' = Inr norm_epsilon"
  shows "build_decoder get decoders input_specs model_config l2_regularizer s =
     external (NASFPN decoders
       [(''input_specs'', input_specs),
        (''min_level'', min_level),
        (''max_level'', max_level),
        (''num_filters'', num_filters),
        (''num_repeats'', num_repeats),
        (''use_separable_conv'', use_separable_conv),
        (''activation'', activation),
        (''use_sync_bn'', use_sync_bn),
        (''norm_momentum'', norm_momentum),
        (''norm_epsilon'', norm_epsilon),
        (''kernel_regularizer'', l2_regularizer)]) s1"
  using assms
  by (simp add: build_decoder_def call_def py_bind_def attr_def py_return_def external_Inr)

theorem build_decoder_nasfpn_witness:
  "build_decoder stub_get stub_decoders (PRef 0) (PRef 3) PNone (sample_store (PStr ''nasfpn'')) =
     (Inr (PRef 15),
      sample_store (PStr ''nasfpn'') @
        [Instance
          [(''__class__'', PStr ''NASFPN''),
           (''input_specs'', PRef 0),
           (''min_level'', PInt 3),
           (''max_level'', PInt 7),
           (''num_filters'', PInt 256),
           (''num_repeats'', PInt 5),
           (''use_separable_conv'', PBool False),
           (''activation'', PStr ''relu''),
           (''use_sync_bn'', PBool False),
           (''norm_momentum'', PFloat 0x3FEFAE147AE147AE),
           (''norm_epsilon'', PFloat 0x3F50624DD2F1A9FC),
           (''kernel_regularizer'', PNone)]])"
proof -
  let ?s = "sample_store (PStr ''nasfpn'')"
  have run: "build_decoder stub_get stub_decoders (PRef 0) (PRef 3) PNone ?s =
     external (NASFPN stub_decoders
       [(''input_specs'', PRef 0),
        (''min_level'', PInt 3),
        (''max_level'', PInt 7),
        (''num_filters'', PInt 256),
        (''num_repeats'', PInt 5),
        (''use_separable_conv'', PBool False),
        (''activation'', PStr ''relu''),
        (''use_sync_bn'', PBool False),
        (''norm_momentum'', PFloat 0x3FEFAE147AE147AE),
        (''norm_epsilon'', PFloat 0x3F50624DD2F1A9FC),
        (''kernel_regularizer'', PNone)]) ?s"
    by (rule build_decoder_nasfpn [where decoder = "PRef 4" and decoder_cfg = "PRef 7"
          and norm_activation_config = "PRef 5"])
      (simp_all add: sample_store_def stub_get_def)
  have len: "length ?s = 15" by (simp add: sample_store_def)
  show ?thesis
    unfolding run by (simp add: external_def stub_decoders_def stub_ctor_def len)
qed

subsection \<open>The \<open>aspp\<close> branch\<close>

text \<open>
  Claim C5. When \<open>model_config.decoder.type\<close> is \<open>'aspp'\<close>, the call is the call of the
  \<open>ASPP\<close> constructor with the sub-record's \<open>level\<close>, \<open>dilation_rates\<close>,
  \<open>num_filters\<close>, \<open>pool_kernel_size\<close> and \<open>dropout_rate\<close>, the four
  \<open>norm_activation\<close> fields and \<open>l2_regularizer\<close> as \<open>kernel_regularizer\<close>, each
  forwarded as it was read.
\<close>

theorem build_decoder_aspp:
  assumes "getattr s model_config ''decoder'' = Inr decoder"
    and "getattr s decoder ''type'' = Inr (PStr ''aspp'')"
    and "get decoder s = (Inr decoder_cfg, s1)"
    and "getattr s1 model_config ''norm_activation'' = Inr norm_activation_config"
    and "getattr s1 decoder_cfg ''level'' = Inr level"
    and "getattr s1 decoder_cfg ''dilation_rates'' = Inr dilation_rates"
    and "getattr s1 decoder_cfg ''num_filters'' = Inr num_filters"
    and "getattr s1 decoder_cfg ''pool_kernel_size'' = Inr pool_kernel_size"
    and "getattr s1 decoder_cfg ''dropout_rate'' = Inr dropout_rate"
    and "getattr s1 norm_activation_config ''use_sync_bn'' = Inr use_sync_bn"
    and "getattr s1 norm_activation_config ''norm_momentum'' = Inr norm_momentum"
    and "getattr s1 norm_activation_config ''norm_epsilon'' = Inr norm_epsilon"
    and "getattr s1 norm_activation_config ''activation'' = Inr activation"
  shows "build_decoder get decoders input_specs model_config l2_regularizer s =
     external (ASPP decoders
       [(''level'', level),
        (''dilation_rates'', dilation_rates),
        (''num_filters'', num_filters),
        (''pool_kernel_size'', pool_kernel_size),
        (''dropout_rate'', dropout_rate),
        (''use_sync_bn'', use_sync_bn),
        (''norm_momentum'', norm_momentum),
        (''norm_epsilon'', norm_epsilon),
        (''activation'', activation),
        (''kernel_regularizer'', l2_regularizer)]) s1"
  using assms
  by (simp add: build_decoder_def call_def py_bind_def attr_def py_return_def external_Inr)

theorem build_decoder_aspp_witness:
  "build_decoder stub_get stub_decoders (PRef 0) (PRef 3) (PRef 14) (sample_store (PStr ''aspp'')) =
     (Inr (PRef 15),
      sample_store (PStr ''aspp'') @
        [Instance
          [(''__class__'', PStr ''ASPP''),
           (''level'', PInt 4),
           (''dilation_rates'', PRef 11),
           (''num_filters'', PInt 256),
           (''pool_kernel_size'', PNone),
           (''dropout_rate'', PFloat 0),
           (''use_sync_bn'', PBool False),
           (''norm_momentum'', PFloat 0x3FEFAE147AE147AE),
           (''norm_epsilon'', PFloat 0x3F50624DD2F1A9FC),
           (''activation'', PStr ''relu''),
           (''kernel_regularizer'', PRef 14)]])"
proof -
  let ?s = "sample_store (PStr ''aspp'')"
  have run: "build_decoder stub_get stub_decoders (PRef 0) (PRef 3) (PRef 14) ?s =
     external (ASPP stub_decoders
       [(''level'', PInt 4),
        (''dilation_rates'', PRef 11),
        (''num_filters'', PInt 256),
        (''pool_kernel_size'', PNone),
        (''dropout_rate'', PFloat 0),
        (''use_sync_bn'', PBool False),
        (''norm_momentum'', PFloat 0x3FEFAE147AE147AE),
        (''norm_epsilon'', PFloat 0x3F50624DD2F1A9FC),
        (''activation'', PStr ''relu''),
        (''kernel_regularizer'', PRef 14)]) ?s"
    by (rule build_decoder_aspp [where decoder = "PRef 4" and decoder_cfg = "PRef 9"
          and norm_activation_config = "PRef 5"])
      (simp_all add: sample_store_def stub_get_def)
  have len: "length ?s = 15" by (simp add: sample_store_def)
  show ?thesis
    unfolding run by (simp add: external_def stub_decoders_def stub_ctor_def len)
qed

subsection \<open>The \<open>mrfm\<close> branch\<close>

text \<open>
  Claim C6. When \<open>model_config.decoder.type\<close> is \<open>'mrfm'\<close>, the call is the call of the
  \<open>MRFM\<close> constructor with \<open>input_specs\<close>, a new dict as \<open>feature_map_layout\<close> that
  holds the sub-record's \<open>fml_from_layer\<close> under the key \<open>FROM_LAYER\<close> and its
  \<open>fml_layer_depth\<close> under the key \<open>LAYER_DEPTH\<close>, the sub-record's
  \<open>depth_multiplier\<close>, \<open>min_depth\<close>, \<open>insert_1x1_conv\<close>, \<open>kernel_size\<close>,
  \<open>use_explicit_padding\<close> and \<open>use_depthwise\<close>, the four \<open>norm_activation\<close> fields
  and \<open>l2_regularizer\<close> as \<open>kernel_regularizer\<close>, each forwarded as it was read. The
  dict is the object allocated next in the store that \<open>get()\<close> left.
\<close>

theorem build_decoder_mrfm:
  assumes "getattr s model_config ''decoder'' = Inr decoder"
    and "getattr s decoder ''type'' = Inr (PStr ''mrfm'')"
    and "get decoder s = (Inr decoder_cfg, s1)"
    and "getattr s1 model_config ''norm_activation'' = Inr norm_activation_config"
    and "getattr s1 decoder_cfg ''fml_from_layer'' = Inr fml_from_layer"
    and "getattr s1 decoder_cfg ''fml_layer_depth'' = Inr fml_layer_depth"
    and "getattr s1 decoder_cfg ''depth_multiplier'' = Inr depth_multiplier"
    and "getattr s1 decoder_cfg ''min_depth'' = Inr min_depth"
    and "getattr s1 decoder_cfg ''insert_1x1_conv'' = Inr insert_1x1_conv"
    and "getattr s1 decoder_cfg ''kernel_size'' = Inr kernel_size"
    and "getattr s1 decoder_cfg ''use_explicit_padding'' = Inr use_explicit_padding"
    and "getattr s1 decoder_cfg ''use_depthwise'' = Inr use_depthwise"
    and "getattr s1 norm_activation_config ''activation'' = Inr activation"
    and "getattr s1 norm_activation_config ''use_sync_bn'' = Inr use_sync_bn"
    and "getattr s1 norm_activation_config ''norm_momentum'' = Inr norm_momentum"
    and "getattr s1 norm_activation_config ''norm_epsilon'' = Inr norm_epsilon"
  shows "build_decoder get decoders input_specs model_config l2_regularizer s =
     external (MRFM decoders
       [(''input_specs'', input_specs),
        (''feature_map_layout'', PRef (length s1)),
        (''depth_multiplier'', depth_multiplier),
        (''min_depth'', min_depth),
        (''insert_1x1_conv'', insert_1x1_conv),
        (''kernel_size'', kernel_size),
        (''use_explicit_padding'', use_explicit_padding),
        (''use_depthwise'', use_depthwise),
        (''activation'', activation),
        (''use_sync_bn'', use_sync_bn),
        (''norm_momentum'', norm_momentum),
        (''norm_epsilon'', norm_epsilon),
        (''kernel_regularizer'', l2_regularizer)])
       (s1 @ [Dict (dict_setitem (dict_setitem [] (FROM_LAYER decoders) fml_from_layer)
                      (LAYER_DEPTH decoders) fml_layer_depth)])"
  using assms
  by (simp add: build_decoder_def call_def dict_display_def alloc_def py_bind_def attr_def
      py_return_def external_Inr getattr_append_Dict)

theorem build_decoder_mrfm_witness:
  "build_decoder stub_get stub_decoders (PRef 0) (PRef 3) (PRef 14) (sample_store (PStr ''mrfm'')) =
     (Inr (PRef 16),
      sample_store (PStr ''mrfm'') @
        [Dict [(''from_layer'', PRef 12), (''layer_depth'', PRef 13)],
         Instance
          [(''__class__'', PStr ''MRFM''),
           (''input_specs'', PRef 0),
           (''feature_map_layout'', PRef 15),
           (''depth_multiplier'', PFloat 0x3FF0000000000000),
           (''min_depth'', PInt 16),
           (''insert_1x1_conv'', PBool True),
           (''kernel_size'', PInt 3),
           (''use_explicit_padding'', PBool False),
           (''use_depthwise'', PBool False),
           (''activation'', PStr ''relu''),
           (''use_sync_bn'', PBool False),
           (''norm_momentum'', PFloat 0x3FEFAE147AE147AE),
           (''norm_epsilon'', PFloat 0x3F50624DD2F1A9FC),
           (''kernel_regularizer'', PRef 14)]])"
proof -
  let ?s = "sample_store (PStr ''mrfm'')"
  have len: "length ?s = 15" by (simp add: sample_store_def)
  have run: "build_decoder stub_get stub_decoders (PRef 0) (PRef 3) (PRef 14) ?s =
     external (MRFM stub_decoders
       [(''input_specs'', PRef 0),
        (''feature_map_layout'', PRef (length ?s)),
        (''depth_multiplier'', PFloat 0x3FF0000000000000),
        (''min_depth'', PInt 16),
        (''insert_1x1_conv'', PBool True),
        (''kernel_size'', PInt 3),
        (''use_explicit_padding'', PBool False),
        (''use_depthwise'', PBool False),
        (''activation'', PStr ''relu''),
        (''use_sync_bn'', PBool False),
        (''norm_momentum'', PFloat 0x3FEFAE147AE147AE),
        (''norm_epsilon'', PFloat 0x3F50624DD2F1A9FC),
        (''kernel_regularizer'', PRef 14)])
       (?s @ [Dict (dict_setitem (dict_setitem [] (FROM_LAYER stub_decoders) (PRef 12))
                      (LAYER_DEPTH stub_decoders) (PRef 13))])"
    by (rule build_decoder_mrfm [where decoder = "PRef 4" and decoder_cfg = "PRef 10"
          and norm_activation_config = "PRef 5"])
      (simp_all add: sample_store_def stub_get_def)
  show ?thesis
    unfolding run by (simp add: external_def stub_decoders_def stub_ctor_def len)
qed

subsection \<open>Where the unknown-type error can come from\<close>

lemma never_return: "never_not_implement (py_return v)"
  by (simp add: never_not_implement_def py_return_def)

lemma never_attr: "never_not_implement (attr v n)"
proof -
  have "getattr s v n \<noteq> Inl (DecoderNotImplement x)" for s x
    by (cases v) (simp_all split: pyobj.split option.split)
  then show ?thesis by (simp add: never_not_implement_def attr_def)
qed

lemma never_alloc: "never_not_implement (alloc ob)"
  by (simp add: never_not_implement_def alloc_def)

lemma never_external: "never_not_implement (external f)"
  unfolding never_not_implement_def
proof (intro allI)
  fix s v
  obtain r s' where "f s = (r, s')" by (cases "f s")
  then show "fst (external f s) \<noteq> Inl (DecoderNotImplement v)"
    by (cases r) (simp_all add: external_def)
qed

lemma never_bind:
  assumes m: "never_not_implement m" and f: "\<And>v. never_not_implement (f v)"
  shows "never_not_implement (py_bind m f)"
  unfolding never_not_implement_def
proof (intro allI)
  fix s x
  obtain r s' where ms: "m s = (r, s')" by (cases "m s")
  show "fst (py_bind m f s) \<noteq> Inl (DecoderNotImplement x)"
  proof (cases r)
    case (Inl e)
    from m have "fst (m s) \<noteq> Inl (DecoderNotImplement x)"
      by (simp add: never_not_implement_def)
    with ms Inl show ?thesis by (simp add: py_bind_def)
  next
    case (Inr v)
    from f have "fst (f v s') \<noteq> Inl (DecoderNotImplement x)"
      by (simp add: never_not_implement_def)
    with ms Inr show ?thesis by (simp add: py_bind_def)
  qed
qed

lemma never_eval_items:
  "list_all (\<lambda>item. never_not_implement (snd item)) items \<Longrightarrow>
   never_not_implement (eval_items items)"
proof (induction items)
  case Nil
  show ?case by (simp add: never_return)
next
  case (Cons item items)
  obtain k m where item: "item = (k, m)" by (cases item)
  from Cons.prems item have m: "never_not_implement m" by simp
  from Cons.prems have "list_all (\<lambda>item. never_not_implement (snd item)) items" by simp
  then have rest: "never_not_implement (eval_items items)" by (rule Cons.IH)
  show ?case
    unfolding item eval_items.simps
    by (intro never_bind m rest never_return)
qed

lemma never_dict_display:
  "list_all (\<lambda>item. never_not_implement (snd item)) items \<Longrightarrow>
   never_not_implement (dict_display items)"
  unfolding dict_display_def
  by (intro never_bind never_eval_items never_alloc)

lemma never_call:
  "list_all (\<lambda>item. never_not_implement (snd item)) args \<Longrightarrow> never_not_implement (call f args)"
  unfolding call_def
  by (intro never_bind never_eval_items never_external)

text \<open>The dispatch, after the three reads, for each of the five known types.\<close>

lemma build_decoder_after_reads:
  assumes "getattr s model_config ''decoder'' = Inr decoder"
    and "getattr s decoder ''type'' = Inr decoder_type"
    and "get decoder s = (Inr decoder_cfg, s1)"
    and "getattr s1 model_config ''norm_activation'' = Inr norm_activation_config"
  shows "build_decoder get decoders input_specs model_config l2_regularizer s =
    (if decoder_type = PStr ''identity'' then
         py_return PNone
       else if decoder_type = PStr ''fpn'' then
         call (FPN decoders)
           [(''input_specs'', py_return input_specs),
            (''min_level'', attr model_config ''min_level''),
            (''max_level'', attr model_config ''max_level''),
            (''num_filters'', attr decoder_cfg ''num_filters''),
            (''use_separable_conv'', attr decoder_cfg ''use_separable_conv''),
            (''activation'', attr norm_activation_config ''activation''),
            (''use_sync_bn'', attr norm_activation_config ''use_sync_bn''),
            (''norm_momentum'', attr norm_activation_config ''norm_momentum''),
            (''norm_epsilon'', attr norm_activation_config ''norm_epsilon''),
            (''kernel_regularizer'', py_return l2_regularizer)]
       else if decoder_type = PStr ''nasfpn'' then
         call (NASFPN decoders)
           [(''input_specs'', py_return input_specs),
            (''min_level'', attr model_config ''min_level''),
            (''max_level'', attr model_config ''max_level''),
            (''num_filters'', attr decoder_cfg ''num_filters''),
            (''num_repeats'', attr decoder_cfg ''num_repeats''),
            (''use_separable_conv'', attr decoder_cfg ''use_separable_conv''),
            (''activation'', attr norm_activation_config ''activation''),
            (''use_sync_bn'', attr norm_activation_config ''use_sync_bn''),
            (''norm_momentum'', attr norm_activation_config ''norm_momentum''),
            (''norm_epsilon'', attr norm_activation_config ''norm_epsilon''),
            (''kernel_regularizer'', py_return l2_regularizer)]
       else if decoder_type = PStr ''aspp'' then
         call (ASPP decoders)
           [(''level'', attr decoder_cfg ''level''),
            (''dilation_rates'', attr decoder_cfg ''dilation_rates''),
            (''num_filters'', attr decoder_cfg ''num_filters''),
            (''pool_kernel_size'', attr decoder_cfg ''pool_kernel_size''),
            (''dropout_rate'', attr decoder_cfg ''dropout_rate''),
            (''use_sync_bn'', attr norm_activation_config ''use_sync_bn''),
            (''norm_momentum'', attr norm_activation_config ''norm_momentum''),
            (''norm_epsilon'', attr norm_activation_config ''norm_epsilon''),
            (''activation'', attr norm_activation_config ''activation''),
            (''kernel_regularizer'', py_return l2_regularizer)]
       else if decoder_type = PStr ''mrfm'' then
         call (MRFM decoders)
           [(''input_specs'', py_return input_specs),
            (''feature_map_layout'',
               dict_display
                 [(FROM_LAYER decoders, attr decoder_cfg ''fml_from_layer''),
                  (LAYER_DEPTH decoders, attr decoder_cfg ''fml_layer_depth'')]),
            (''depth_multiplier'', attr decoder_cfg ''depth_multiplier''),
            (''min_depth'', attr decoder_cfg ''min_depth''),
            (''insert_1x1_conv'', attr decoder_cfg ''insert_1x1_conv''),
            (''kernel_size'', attr decoder_cfg ''kernel_size''),
            (''use_explicit_padding'', attr decoder_cfg ''use_explicit_padding''),
            (''use_depthwise'', attr decoder_cfg ''use_depthwise''),
            (''activation'', attr norm_activation_config ''activation''),
            (''use_sync_bn'', attr norm_activation_config ''use_sync_bn''),
            (''norm_momentum'', attr norm_activation_config ''norm_momentum''),
            (''norm_epsilon'', attr norm_activation_config ''norm_epsilon''),
            (''kernel_regularizer'', py_return l2_regularizer)]
       else
         py_raise (DecoderNotImplement decoder_type)) s1"
  using assms
  by (simp add: build_decoder_def py_bind_def attr_def external_Inr)

lemma never_if:
  "never_not_implement a \<Longrightarrow> never_not_implement b \<Longrightarrow> never_not_implement (if c then a else b)"
  by simp

lemma known_type_never_not_implement:
  assumes "getattr s model_config ''decoder'' = Inr decoder"
    and "getattr s decoder ''type'' = Inr decoder_type"
    and "get decoder s = (Inr decoder_cfg, s1)"
    and "getattr s1 model_config ''norm_activation'' = Inr norm_activation_config"
    and known: "decoder_type \<in> set known_types"
  shows "fst (build_decoder get decoders input_specs model_config l2_regularizer s) \<noteq>
    Inl (DecoderNotImplement v)"
proof -
  let ?fpn = "call (FPN decoders)
           [(''input_specs'', py_return input_specs),
            (''min_level'', attr model_config ''min_level''),
            (''max_level'', attr model_config ''max_level''),
            (''num_filters'', attr decoder_cfg ''num_filters''),
            (''use_separable_conv'', attr decoder_cfg ''use_separable_conv''),
            (''activation'', attr norm_activation_config ''activation''),
            (''use_sync_bn'', attr norm_activation_config ''use_sync_bn''),
            (''norm_momentum'', attr norm_activation_config ''norm_momentum''),
            (''norm_epsilon'', attr norm_activation_config ''norm_epsilon''),
            (''kernel_regularizer'', py_return l2_regularizer)]"
  let ?nasfpn = "call (NASFPN decoders)
           [(''input_specs'', py_return input_specs),
            (''min_level'', attr model_config ''min_level''),
            (''max_level'', attr model_config ''max_level''),
            (''num_filters'', attr decoder_cfg ''num_filters''),
            (''num_repeats'', attr decoder_cfg ''num_repeats''),
            (''use_separable_conv'', attr decoder_cfg ''use_separable_conv''),
            (''activation'', attr norm_activation_config ''activation''),
            (''use_sync_bn'', attr norm_activation_config ''use_sync_bn''),
            (''norm_momentum'', attr norm_activation_config ''norm_momentum''),
            (''norm_epsilon'', attr norm_activation_config ''norm_epsilon''),
            (''kernel_regularizer'', py_return l2_regularizer)]"
  let ?aspp = "call (ASPP decoders)
           [(''level'', attr decoder_cfg ''level''),
            (''dilation_rates'', attr decoder_cfg ''dilation_rates''),
            (''num_filters'', attr decoder_cfg ''num_filters''),
            (''pool_kernel_size'', attr decoder_cfg ''pool_kernel_size''),
            (''dropout_rate'', attr decoder_cfg ''dropout_rate''),
            (''use_sync_bn'', attr norm_activation_config ''use_sync_bn''),
            (''norm_momentum'', attr norm_activation_config ''norm_momentum''),
            (''norm_epsilon'', attr norm_activation_config ''norm_epsilon''),
            (''activation'', attr norm_activation_config ''activation''),
            (''kernel_regularizer'', py_return l2_regularizer)]"
  let ?mrfm = "call (MRFM decoders)
           [(''input_specs'', py_return input_specs),
            (''feature_map_layout'',
               dict_display
                 [(FROM_LAYER decoders, attr decoder_cfg ''fml_from_layer''),
                  (LAYER_DEPTH decoders, attr decoder_cfg ''fml_layer_depth'')]),
            (''depth_multiplier'', attr decoder_cfg ''depth_multiplier''),
            (''min_depth'', attr decoder_cfg ''min_depth''),
            (''insert_1x1_conv'', attr decoder_cfg ''insert_1x1_conv''),
            (''kernel_size'', attr decoder_cfg ''kernel_size''),
            (''use_explicit_padding'', attr decoder_cfg ''use_explicit_padding''),
            (''use_depthwise'', attr decoder_cfg ''use_depthwise''),
            (''activation'', attr norm_activation_config ''activation''),
            (''use_sync_bn'', attr norm_activation_config ''use_sync_bn''),
            (''norm_momentum'', attr norm_activation_config ''norm_momentum''),
            (''norm_epsilon'', attr norm_activation_config ''norm_epsilon''),
            (''kernel_regularizer'', py_return l2_regularizer)]"
  have fpn: "never_not_implement ?fpn"
    by (rule never_call) (simp add: never_attr never_return)
  have nasfpn: "never_not_implement ?nasfpn"
    by (rule never_call) (simp add: never_attr never_return)
  have aspp: "never_not_implement ?aspp"
    by (rule never_call) (simp add: never_attr never_return)
  have mrfm: "never_not_implement ?mrfm"
    by (rule never_call) (simp add: never_attr never_return never_dict_display)
  have none: "never_not_implement (py_return PNone)"
    by (rule never_return)
  from known consider "decoder_type = PStr ''identity''" | "decoder_type = PStr ''fpn''"
    | "decoder_type = PStr ''nasfpn''" | "decoder_type = PStr ''aspp''"
    | "decoder_type = PStr ''mrfm''"
    by (auto simp: known_types_def)
  then show ?thesis
  proof cases
    case 1
    then have "build_decoder get decoders input_specs model_config l2_regularizer s =
        py_return PNone s1"
      by (simp add: build_decoder_after_reads [where get = get, OF assms(1-4)])
    with none show ?thesis by (simp add: never_not_implement_def)
  next
    case 2
    then have "build_decoder get decoders input_specs model_config l2_regularizer s = ?fpn s1"
      by (simp add: build_decoder_after_reads [where get = get, OF assms(1-4)])
    with fpn show ?thesis by (simp add: never_not_implement_def)
  next
    case 3
    then have "build_decoder get decoders input_specs model_config l2_regularizer s = ?nasfpn s1"
      by (simp add: build_decoder_after_reads [where get = get, OF assms(1-4)])
    with nasfpn show ?thesis by (simp add: never_not_implement_def)
  next
    case 4
    then have "build_decoder get decoders input_specs model_config l2_regularizer s = ?aspp s1"
      by (simp add: build_decoder_after_reads [where get = get, OF assms(1-4)])
    with aspp show ?thesis by (simp add: never_not_implement_def)
  next
    case 5
    then have "build_decoder get decoders input_specs model_config l2_regularizer s = ?mrfm s1"
      by (simp add: build_decoder_after_reads [where get = get, OF assms(1-4)])
    with mrfm show ?thesis by (simp add: never_not_implement_def)
  qed
qed

lemma unknown_type_not_implement:
  assumes "getattr s model_config ''decoder'' = Inr decoder"
    and "getattr s decoder ''type'' = Inr decoder_type"
    and "get decoder s = (Inr decoder_cfg, s1)"
    and "getattr s1 model_config ''norm_activation'' = Inr norm_activation_config"
    and unknown: "decoder_type \<notin> set known_types"
  shows "build_decoder get decoders input_specs model_config l2_regularizer s =
    (Inl (DecoderNotImplement decoder_type), s1)"
  using unknown
  by (simp add: build_decoder_after_reads [where get = get, OF assms(1-4)] known_types_def py_raise_def)

subsection \<open>The unknown-type error\<close>

text \<open>
  Claim C1, as amended. In every call in which the reads of \<open>model_config.decoder.type\<close>,
  \<open>model_config.decoder.get()\<close> and \<open>model_config.norm_activation\<close> succeed, the
  unknown-decoder-type \<open>ValueError\<close> is raised if and only if the type is none of
  \<open>'identity'\<close>, \<open>'fpn'\<close>, \<open>'nasfpn'\<close>, \<open>'aspp'\<close>, \<open>'mrfm'\<close>. When it is
  raised, it carries the type and leaves the store as \<open>get()\<close> left it: nothing is
  constructed and nothing is retried. For each of the five types the call never
  ends in that error, whatever its argument.

  The claim as stated (for every call) fails: in a configuration without
  \<open>norm_activation\<close> an unknown type ends in the \<open>AttributeError\<close> of that read,
  which comes before the dispatch.
\<close>

theorem build_decoder_unknown_type:
  assumes "getattr s model_config ''decoder'' = Inr decoder"
    and "getattr s decoder ''type'' = Inr decoder_type"
    and "get decoder s = (Inr decoder_cfg, s1)"
    and "getattr s1 model_config ''norm_activation'' = Inr norm_activation_config"
  shows "(build_decoder get decoders input_specs model_config l2_regularizer s =
            (Inl (DecoderNotImplement decoder_type), s1)) =
         (decoder_type \<notin> set known_types) \<and>
         (\<exists>v. fst (build_decoder get decoders input_specs model_config l2_regularizer s) =
            Inl (DecoderNotImplement v)) =
         (decoder_type \<notin> set known_types)"
proof (cases "decoder_type \<in> set known_types")
  case True
  have "fst (build_decoder get decoders input_specs model_config l2_regularizer s) \<noteq>
      Inl (DecoderNotImplement v)" for v
    by (rule known_type_never_not_implement [where get = get, OF assms True])
  moreover from this [of decoder_type]
  have "build_decoder get decoders input_specs model_config l2_regularizer s \<noteq>
      (Inl (DecoderNotImplement decoder_type), s1)"
    by auto
  ultimately show ?thesis using True by simp
next
  case False
  have "build_decoder get decoders input_specs model_config l2_regularizer s =
      (Inl (DecoderNotImplement decoder_type), s1)"
    by (rule unknown_type_not_implement [where get = get, OF assms False])
  then show ?thesis using False by simp
qed

theorem build_decoder_unknown_type_witness:
  "build_decoder stub_get failing_decoders (PRef 0) (PRef 3) (PRef 14) (sample_store PNone) =
     (Inl (DecoderNotImplement PNone), sample_store PNone) \<and>
   build_decoder stub_get failing_decoders PNone (PRef 0) PNone (single_variant_store ''unet'') =
     (Inl (DecoderNotImplement (PStr ''unet'')), single_variant_store ''unet'') \<and>
   (\<forall>v. fst (build_decoder stub_get stub_decoders (PRef 0) (PRef 3) (PRef 14)
       (sample_store (PStr ''fpn''))) \<noteq> Inl (DecoderNotImplement v))"
proof -
  have a: "PNone \<notin> set known_types" "PStr ''unet'' \<notin> set known_types"
    "PStr ''fpn'' \<in> set known_types"
    by (simp_all add: known_types_def)
  have 1: "build_decoder stub_get failing_decoders (PRef 0) (PRef 3) (PRef 14) (sample_store PNone) =
     (Inl (DecoderNotImplement PNone), sample_store PNone)"
    using build_decoder_unknown_type [where s = "sample_store PNone" and model_config = "PRef 3"
        and decoder = "PRef 4" and decoder_type = PNone and get = stub_get
        and decoder_cfg = PNone and ?s1.0 = "sample_store PNone"
        and norm_activation_config = "PRef 5" and decoders = failing_decoders
        and input_specs = "PRef 0" and l2_regularizer = "PRef 14"] a
    by (simp add: sample_store_def stub_get_def)
  have 2: "build_decoder stub_get failing_decoders PNone (PRef 0) PNone (single_variant_store ''unet'') =
     (Inl (DecoderNotImplement (PStr ''unet'')), single_variant_store ''unet'')"
    using build_decoder_unknown_type [where s = "single_variant_store ''unet''"
        and model_config = "PRef 0"
        and decoder = "PRef 1" and decoder_type = "PStr ''unet''" and get = stub_get
        and decoder_cfg = "PRef 2" and ?s1.0 = "single_variant_store ''unet''"
        and norm_activation_config = "PRef 3" and decoders = failing_decoders
        and input_specs = PNone and l2_regularizer = PNone] a
    by (simp add: single_variant_store_def stub_get_def)
  have 3: "\<forall>v. fst (build_decoder stub_get stub_decoders (PRef 0) (PRef 3) (PRef 14)
       (sample_store (PStr ''fpn''))) \<noteq> Inl (DecoderNotImplement v)"
    using build_decoder_unknown_type [where s = "sample_store (PStr ''fpn'')"
        and model_config = "PRef 3"
        and decoder = "PRef 4" and decoder_type = "PStr ''fpn''" and get = stub_get
        and decoder_cfg = "PRef 6" and ?s1.0 = "sample_store (PStr ''fpn'')"
        and norm_activation_config = "PRef 5" and decoders = stub_decoders
        and input_specs = "PRef 0" and l2_regularizer = "PRef 14"] a
    by (simp add: sample_store_def stub_get_def)
  from 1 2 3 show ?thesis by blast
qed

theorem build_decoder_unknown_type_counterexample:
  "getattr (bare_store ''unet'') (PRef 0) ''decoder'' = Inr (PRef 1) \<and>
   getattr (bare_store ''unet'') (PRef 1) ''type'' = Inr (PStr ''unet'') \<and>
   PStr ''unet'' \<notin> set known_types \<and>
   build_decoder stub_get stub_decoders PNone (PRef 0) PNone (bare_store ''unet'') =
     (Inl (AttributeError (PRef 0) ''norm_activation''), bare_store ''unet'')"
  by (simp add: bare_store_def known_types_def build_decoder_def py_bind_def attr_def
      external_def stub_get_def)

subsection \<open>The \<open>identity\<close> branch\<close>

text \<open>
  Claim C2, as amended. In every call in which \<open>model_config.decoder.type\<close> is
  \<open>'identity'\<close> and the reads of \<open>model_config.decoder.get()\<close> and
  \<open>model_config.norm_activation\<close> succeed, the function returns \<open>None\<close> and invokes
  none of the constructors: the result and the store are the same for every
  \<open>decoders\<close> module, also for one whose constructors always raise, and the store is
  the one that \<open>get()\<close> left.

  The claim as stated (for every call with that type) fails: in a configuration
  without \<open>norm_activation\<close> the call ends in the \<open>AttributeError\<close> of that read.
\<close>

theorem build_decoder_identity:
  assumes "getattr s model_config ''decoder'' = Inr decoder"
    and "getattr s decoder ''type'' = Inr (PStr ''identity'')"
    and "get decoder s = (Inr decoder_cfg, s1)"
    and "getattr s1 model_config ''norm_activation'' = Inr norm_activation_config"
  shows "build_decoder get decoders input_specs model_config l2_regularizer s = (Inr PNone, s1)"
  by (simp add: build_decoder_after_reads [where get = get, OF assms] py_return_def)

theorem build_decoder_identity_witness:
  "build_decoder stub_get failing_decoders (PRef 0) (PRef 3) (PRef 14)
      (sample_store (PStr ''identity'')) = (Inr PNone, sample_store (PStr ''identity'')) \<and>
   build_decoder stub_get stub_decoders (PRef 0) (PRef 3) (PRef 14)
      (sample_store (PStr ''identity'')) = (Inr PNone, sample_store (PStr ''identity''))"
proof -
  let ?s = "sample_store (PStr ''identity'')"
  have reads: "getattr ?s (PRef 3) ''decoder'' = Inr (PRef 4)"
    "getattr ?s (PRef 4) ''type'' = Inr (PStr ''identity'')"
    "stub_get (PRef 4) ?s = (Inr (PRef 8), ?s)"
    "getattr ?s (PRef 3) ''norm_activation'' = Inr (PRef 5)"
    by (simp_all add: sample_store_def stub_get_def)
  show ?thesis
    using build_decoder_identity [where get = stub_get, OF reads, of failing_decoders "PRef 0" "PRef 14"]
      build_decoder_identity [where get = stub_get, OF reads, of stub_decoders "PRef 0" "PRef 14"]
    by simp
qed

theorem build_decoder_identity_counterexample:
  "getattr (bare_store ''identity'') (PRef 0) ''decoder'' = Inr (PRef 1) \<and>
   getattr (bare_store ''identity'') (PRef 1) ''type'' = Inr (PStr ''identity'') \<and>
   build_decoder stub_get stub_decoders PNone (PRef 0) PNone (bare_store ''identity'') =
     (Inl (AttributeError (PRef 0) ''norm_activation''), bare_store ''identity'')"
  by (simp add: bare_store_def build_decoder_def py_bind_def attr_def
      external_def stub_get_def)

subsection \<open>Exact matching of the discriminator\<close>

text \<open>
  Claim C8. The discriminator is matched exactly: with the type \<open>'FPN'\<close>, and with the
  type \<open>'Identity'\<close>, in a configuration whose three reads succeed, the call raises the
  unknown-decoder-type error and the store is unchanged, whatever the constructors,
  \<open>input_specs\<close> and \<open>l2_regularizer\<close> are.
\<close>

theorem build_decoder_case_sensitive:
  "build_decoder stub_get decoders input_specs (PRef 0) l2_regularizer (single_variant_store ''FPN'') =
     (Inl (DecoderNotImplement (PStr ''FPN'')), single_variant_store ''FPN'') \<and>
   build_decoder stub_get decoders input_specs (PRef 0) l2_regularizer
       (single_variant_store ''Identity'') =
     (Inl (DecoderNotImplement (PStr ''Identity'')), single_variant_store ''Identity'')"
  by (simp add: single_variant_store_def build_decoder_def py_bind_def attr_def py_raise_def
      external_def stub_get_def)

subsection \<open>The reads come before the dispatch\<close>

text \<open>
  Claim C9. \<open>model_config.decoder.type\<close>, \<open>model_config.decoder.get()\<close> and
  \<open>model_config.norm_activation\<close> are read before the dispatch: a call that returns
  a value (as for \<open>'identity'\<close>, where none of the three values is used) or that
  raises the unknown-decoder-type error has had all three reads succeed.
\<close>

theorem build_decoder_reads_before_dispatch:
  assumes run: "build_decoder get decoders input_specs model_config l2_regularizer s = (r, s')"
    and r: "r = Inr v \<or> r = Inl (DecoderNotImplement t)"
  shows "\<exists>decoder decoder_type decoder_cfg s1 norm_activation_config.
     getattr s model_config ''decoder'' = Inr decoder \<and>
     getattr s decoder ''type'' = Inr decoder_type \<and>
     get decoder s = (Inr decoder_cfg, s1) \<and>
     getattr s1 model_config ''norm_activation'' = Inr norm_activation_config"
proof -
  have not_attr: "r \<noteq> Inl (AttributeError x n)" and not_prop: "r \<noteq> Inl (Propagated y)" for x n y
    using r by auto
  obtain decoder where 1: "getattr s model_config ''decoder'' = Inr decoder"
  proof (cases "getattr s model_config ''decoder''")
    case (Inl e)
    then have "build_decoder get decoders input_specs model_config l2_regularizer s = (Inl e, s)"
      by (simp add: build_decoder_def py_bind_def attr_def)
    moreover from Inl obtain x n where "e = AttributeError x n"
      by (cases model_config) (auto split: if_splits pyobj.splits option.splits)
    ultimately show ?thesis using run not_attr by simp
  qed
  obtain decoder_type where 2: "getattr s decoder ''type'' = Inr decoder_type"
  proof (cases "getattr s decoder ''type''")
    case (Inl e)
    then have "build_decoder get decoders input_specs model_config l2_regularizer s = (Inl e, s)"
      using 1 by (simp add: build_decoder_def py_bind_def attr_def)
    moreover from Inl obtain x n where "e = AttributeError x n"
      by (cases decoder) (auto split: if_splits pyobj.splits option.splits)
    ultimately show ?thesis using run not_attr by simp
  qed
  obtain g s1 where g: "get decoder s = (g, s1)" by (cases "get decoder s")
  obtain decoder_cfg where 3: "get decoder s = (Inr decoder_cfg, s1)"
  proof (cases g)
    case (Inl y)
    with g have "build_decoder get decoders input_specs model_config l2_regularizer s =
        (Inl (Propagated y), s1)"
      using 1 2 by (simp add: build_decoder_def py_bind_def attr_def external_def)
    then show ?thesis using run not_prop by simp
  next
    case (Inr c)
    with g that show ?thesis by simp
  qed
  obtain norm_activation_config where
    4: "getattr s1 model_config ''norm_activation'' = Inr norm_activation_config"
  proof (cases "getattr s1 model_config ''norm_activation''")
    case (Inl e)
    then have "build_decoder get decoders input_specs model_config l2_regularizer s = (Inl e, s1)"
      using 1 2 3 by (simp add: build_decoder_def py_bind_def attr_def external_def)
    moreover from Inl obtain x n where "e = AttributeError x n"
      by (cases model_config) (auto split: if_splits pyobj.splits option.splits)
    ultimately show ?thesis using run not_attr by simp
  qed
  from 1 2 3 4 show ?thesis by blast
qed

theorem build_decoder_reads_before_dispatch_witness:
  "(\<exists>decoder decoder_type decoder_cfg s1 norm_activation_config.
     getattr (sample_store (PStr ''identity'')) (PRef 3) ''decoder'' = Inr decoder \<and>
     getattr (sample_store (PStr ''identity'')) decoder ''type'' = Inr decoder_type \<and>
     stub_get decoder (sample_store (PStr ''identity'')) = (Inr decoder_cfg, s1) \<and>
     getattr s1 (PRef 3) ''norm_activation'' = Inr norm_activation_config) \<and>
   (\<exists>decoder decoder_type decoder_cfg s1 norm_activation_config.
     getattr (single_variant_store ''unet'') (PRef 0) ''decoder'' = Inr decoder \<and>
     getattr (single_variant_store ''unet'') decoder ''type'' = Inr decoder_type \<and>
     stub_get decoder (single_variant_store ''unet'') = (Inr decoder_cfg, s1) \<and>
     getattr s1 (PRef 0) ''norm_activation'' = Inr norm_activation_config)"
proof -
  have 1: "build_decoder stub_get stub_decoders (PRef 0) (PRef 3) (PRef 14)
      (sample_store (PStr ''identity'')) = (Inr PNone, sample_store (PStr ''identity''))"
    by (simp add: sample_store_def build_decoder_def py_bind_def attr_def py_return_def
        external_def stub_get_def)
  have 2: "build_decoder stub_get stub_decoders PNone (PRef 0) PNone
      (single_variant_store ''unet'') =
      (Inl (DecoderNotImplement (PStr ''unet'')), single_variant_store ''unet'')"
    by (simp add: single_variant_store_def build_decoder_def py_bind_def attr_def py_raise_def
        external_def stub_get_def)
  have r1: "Inr PNone = Inr PNone \<or> (Inr PNone :: error + pyval) = Inl (DecoderNotImplement PNone)"
    by simp
  have r2: "Inl (DecoderNotImplement (PStr ''unet'')) = Inr PNone \<or>
      (Inl (DecoderNotImplement (PStr ''unet'')) :: error + pyval) =
        Inl (DecoderNotImplement (PStr ''unet''))"
    by simp
  from build_decoder_reads_before_dispatch [where get = stub_get, OF 1 r1]
    build_decoder_reads_before_dispatch [where get = stub_get, OF 2 r2]
  show ?thesis by (rule conjI)
qed

subsection \<open>Steps that keep an argument\<close>

lemma keepsD: "keeps v m \<Longrightarrow> deref s v = Some ob \<Longrightarrow> m s = (r, s') \<Longrightarrow> deref s' v = Some ob"
  by (auto simp: keeps_def dest!: spec [of _ s])

lemma keeps_return: "keeps v (py_return x)"
  by (simp add: keeps_def py_return_def)

lemma keeps_raise: "keeps v (py_raise e)"
  by (simp add: keeps_def py_raise_def)

lemma keeps_attr: "keeps v (attr x n)"
  by (simp add: keeps_def attr_def)

lemma deref_append: "deref s v = Some ob \<Longrightarrow> deref (s @ t) v = Some ob"
  by (cases v) (auto simp: nth_append split: if_splits)

lemma keeps_alloc: "keeps v (alloc ob)"
  by (simp add: keeps_def alloc_def deref_append)

lemma keeps_external: 
  assumes "keeps v f"
  shows "keeps v (external f)"
  unfolding keeps_def
proof (intro allI impI)
  fix s ob
  assume d: "deref s v = Some ob"
  obtain r s' where fs: "f s = (r, s')" by (cases "f s")
  from assms d fs have "deref s' v = Some ob" by (rule keepsD)
  with fs show "deref (snd (external f s)) v = Some ob"
    by (cases r) (simp_all add: external_def)
qed

lemma keeps_bind:
  assumes m: "keeps v m" and f: "\<And>x. keeps v (f x)"
  shows "keeps v (py_bind m f)"
  unfolding keeps_def
proof (intro allI impI)
  fix s ob
  assume d: "deref s v = Some ob"
  obtain r s' where ms: "m s = (r, s')" by (cases "m s")
  from m d ms have d': "deref s' v = Some ob" by (rule keepsD)
  show "deref (snd (py_bind m f s)) v = Some ob"
  proof (cases r)
    case (Inl e)
    with ms d' show ?thesis by (simp add: py_bind_def)
  next
    case (Inr x)
    obtain r2 s2 where fx: "f x s' = (r2, s2)" by (cases "f x s'")
    from f d' fx have "deref s2 v = Some ob" by (rule keepsD)
    with ms Inr fx show ?thesis by (simp add: py_bind_def)
  qed
qed

lemma keeps_eval_items:
  "list_all (\<lambda>item. keeps v (snd item)) items \<Longrightarrow> keeps v (eval_items items)"
proof (induction items)
  case Nil
  show ?case by (simp add: keeps_return)
next
  case (Cons item items)
  obtain k m where item: "item = (k, m)" by (cases item)
  from Cons.prems item have m: "keeps v m" by simp
  from Cons.prems have "list_all (\<lambda>item. keeps v (snd item)) items" by simp
  then have rest: "keeps v (eval_items items)" by (rule Cons.IH)
  show ?case
    unfolding item eval_items.simps
    by (intro keeps_bind m rest keeps_return)
qed

lemma keeps_dict_display:
  "list_all (\<lambda>item. keeps v (snd item)) items \<Longrightarrow> keeps v (dict_display items)"
  unfolding dict_display_def
  by (intro keeps_bind keeps_eval_items keeps_alloc)

lemma keeps_call:
  "(\<And>kw. keeps v (f kw)) \<Longrightarrow> list_all (\<lambda>item. keeps v (snd item)) args \<Longrightarrow>
   keeps v (call f args)"
  unfolding call_def
  by (intro keeps_bind keeps_eval_items keeps_external)

lemma keeps_if: "keeps v a \<Longrightarrow> keeps v b \<Longrightarrow> keeps v (if c then a else b)"
  by simp

lemma keeps_build_decoder:
  assumes get: "\<And>x. keeps v (get x)"
    and fpn: "\<And>kw. keeps v (FPN decoders kw)"
    and nasfpn: "\<And>kw. keeps v (NASFPN decoders kw)"
    and aspp: "\<And>kw. keeps v (ASPP decoders kw)"
    and mrfm: "\<And>kw. keeps v (MRFM decoders kw)"
  shows "keeps v (build_decoder get decoders input_specs model_config l2_regularizer)"
  unfolding build_decoder_def
  apply (intro keeps_bind keeps_if keeps_attr keeps_external get keeps_call
      keeps_return keeps_raise fpn nasfpn aspp mrfm)
     apply (simp_all add: keeps_attr keeps_return keeps_dict_display)
  done

lemma keeps_stub_get: "keeps v (stub_get x)"
  by (auto simp: keeps_def stub_get_def split: sum.split pyval.split)

lemma keeps_stub_ctor: "keeps v (stub_ctor c kw)"
  by (simp add: keeps_def stub_ctor_def deref_append)

subsection \<open>The arguments are only read\<close>

text \<open>
  Claim C7. The object behind each of the arguments \<open>input_specs\<close>, \<open>model_config\<close> and
  \<open>l2_regularizer\<close> is the same after the call as before it, whether the call returns
  or raises, provided \<open>get()\<close> and the four constructors, which are not part of this
  file, leave that object as it is. The body of the function itself only reads
  attributes and allocates one new dict.
\<close>

theorem build_decoder_arguments_unchanged:
  assumes arg: "v \<in> {input_specs, model_config, l2_regularizer}"
    and get: "\<And>x. keeps v (get x)"
    and fpn: "\<And>kw. keeps v (FPN decoders kw)"
    and nasfpn: "\<And>kw. keeps v (NASFPN decoders kw)"
    and aspp: "\<And>kw. keeps v (ASPP decoders kw)"
    and mrfm: "\<And>kw. keeps v (MRFM decoders kw)"
    and before: "deref s v = Some ob"
    and run: "build_decoder get decoders input_specs model_config l2_regularizer s = (r, s')"
  shows "deref s' v = Some ob"
  using keeps_build_decoder [where get = get, OF get fpn nasfpn aspp mrfm] before run
  by (rule keepsD)

theorem build_decoder_arguments_unchanged_witness:
  "deref (snd (build_decoder stub_get stub_decoders (PRef 0) (PRef 3) (PRef 14)
       (sample_store (PStr ''mrfm'')))) (PRef 0) =
     Some (Dict [(''3'', PRef 1), (''4'', PRef 2)]) \<and>
   deref (snd (build_decoder stub_get stub_decoders (PRef 0) (PRef 3) (PRef 14)
       (sample_store (PStr ''mrfm'')))) (PRef 3) =
     Some (Instance [(''decoder'', PRef 4), (''norm_activation'', PRef 5),
                (''min_level'', PInt 3), (''max_level'', PInt 7)]) \<and>
   deref (snd (build_decoder stub_get stub_decoders (PRef 0) (PRef 3) (PRef 14)
       (sample_store (PStr ''mrfm'')))) (PRef 14) =
     Some (Instance [(''l2'', PFloat 0x3F1A36E2EB1C432D)])"
proof -
  let ?s = "sample_store (PStr ''mrfm'')"
  let ?run = "build_decoder stub_get stub_decoders (PRef 0) (PRef 3) (PRef 14) ?s"
  have ctor: "keeps v (FPN stub_decoders kw)" "keeps v (NASFPN stub_decoders kw)"
    "keeps v (ASPP stub_decoders kw)" "keeps v (MRFM stub_decoders kw)" for v kw
    by (simp_all add: stub_decoders_def keeps_stub_ctor)
  have run: "?run = (fst ?run, snd ?run)" by simp
  have 0: "deref ?s (PRef 0) = Some (Dict [(''3'', PRef 1), (''4'', PRef 2)])"
    by (simp add: sample_store_def)
  have 3: "deref ?s (PRef 3) = Some (Instance [(''decoder'', PRef 4), (''norm_activation'', PRef 5),
                (''min_level'', PInt 3), (''max_level'', PInt 7)])"
    by (simp add: sample_store_def)
  have 14: "deref ?s (PRef 14) = Some (Instance [(''l2'', PFloat 0x3F1A36E2EB1C432D)])"
    by (simp add: sample_store_def)
  have a: "PRef 0 \<in> {PRef 0, PRef 3, PRef 14}" "PRef 3 \<in> {PRef 0, PRef 3, PRef 14}"
    "PRef 14 \<in> {PRef 0, PRef 3, PRef 14}" by simp_all
  show ?thesis
    using build_decoder_arguments_unchanged [where get = stub_get, OF a(1) keeps_stub_get ctor 0 run]
      build_decoder_arguments_unchanged [where get = stub_get, OF a(2) keeps_stub_get ctor 3 run]
      build_decoder_arguments_unchanged [where get = stub_get, OF a(3) keeps_stub_get ctor 14 run]
    by simp
qed

subsection \<open>The \<open>aspp\<close> branch does not use \<open>input_specs\<close>\<close>

text \<open>
  Claim C10. When \<open>model_config.decoder.type\<close> is \<open>'aspp'\<close>, two calls in the same store
  with the same \<open>model_config\<close> and \<open>l2_regularizer\<close> and different \<open>input_specs\<close> have
  the same outcome: the same result of the \<open>ASPP\<close> constructor or the same exception,
  and the same store.
\<close>

theorem build_decoder_aspp_ignores_input_specs:
  assumes "getattr s model_config ''decoder'' = Inr decoder"
    and "getattr s decoder ''type'' = Inr (PStr ''aspp'')"
  shows "build_decoder get decoders input_specs model_config l2_regularizer s =
         build_decoder get decoders input_specs' model_config l2_regularizer s"
proof -
  obtain g s1 where g: "get decoder s = (g, s1)" by (cases "get decoder s")
  show ?thesis
  proof (cases g)
    case (Inl x)
    with g assms show ?thesis
      by (simp add: build_decoder_def py_bind_def attr_def external_def)
  next
    case (Inr decoder_cfg)
    with g have get: "get decoder s = (Inr decoder_cfg, s1)" by simp
    show ?thesis
    proof (cases "getattr s1 model_config ''norm_activation''")
      case (Inl e)
      with get assms show ?thesis
        by (simp add: build_decoder_def py_bind_def attr_def external_def)
    next
      case (Inr norm_activation_config)
      show ?thesis
        by (simp add: build_decoder_after_reads [where get = get, OF assms get Inr])
    qed
  qed
qed

theorem build_decoder_aspp_ignores_input_specs_witness:
  "build_decoder stub_get stub_decoders (PRef 0) (PRef 3) (PRef 14) (sample_store (PStr ''aspp'')) =
   build_decoder stub_get stub_decoders (PRef 1) (PRef 3) (PRef 14) (sample_store (PStr ''aspp''))"
  by (rule build_decoder_aspp_ignores_input_specs [where decoder = "PRef 4"])
    (simp_all add: sample_store_def)

end
